theory Spec2Isabelle
  imports Main "HOL-Library.Word"
begin

section \<open>Python values used by the sinks\<close>

type_synonym bytes = "8 word list"

text \<open>
  Exceptions are a class and the text \<open>str(exc)\<close> gives. The classes listed are the
  ones \<open>format_audio\<close> names or that \<open>subprocess.Popen\<close>, \<open>BytesIO.read\<close> and
  attribute access raise; \<open>OtherException\<close> stands for any class that is neither
  \<open>FileNotFoundError\<close> nor derived from \<open>subprocess.SubprocessError\<close>.
\<close>

datatype exc_class =
    AttributeError
  | FileNotFoundError
  | PermissionError
  | OSError
  | SubprocessError
  | CalledProcessError
  | TimeoutExpired
  | ValueError
  | KeyboardInterrupt
  | MKVSinkError
  | OtherException string

datatype exc = Exc (exc_cls: exc_class) (exc_str: string)

text \<open>\<open>exc.__class__.__name__\<close>\<close>

fun class_name :: "exc_class \<Rightarrow> string" where
  "class_name AttributeError = ''AttributeError''"
| "class_name FileNotFoundError = ''FileNotFoundError''"
| "class_name PermissionError = ''PermissionError''"
| "class_name OSError = ''OSError''"
| "class_name SubprocessError = ''SubprocessError''"
| "class_name CalledProcessError = ''CalledProcessError''"
| "class_name TimeoutExpired = ''TimeoutExpired''"
| "class_name ValueError = ''ValueError''"
| "class_name KeyboardInterrupt = ''KeyboardInterrupt''"
| "class_name MKVSinkError = ''MKVSinkError''"
| "class_name (OtherException n) = n"

text \<open>
  What \<open>except subprocess.SubprocessError\<close> catches: the class and its two subclasses
  of the standard library.
\<close>

fun isinstance_SubprocessError :: "exc \<Rightarrow> bool" where
  "isinstance_SubprocessError (Exc SubprocessError _) = True"
| "isinstance_SubprocessError (Exc CalledProcessError _) = True"
| "isinstance_SubprocessError (Exc TimeoutExpired _) = True"
| "isinstance_SubprocessError _ = False"

subsection \<open>io.BytesIO\<close>

record bytesio =
  getvalue :: bytes
  tell :: nat
  closed :: bool

definition BytesIO :: "bytes \<Rightarrow> bytesio" where
  "BytesIO initial_bytes = \<lparr>getvalue = initial_bytes, tell = 0, closed = False\<rparr>"

text \<open>
  \<open>f.read()\<close>: everything from the position to the end, and the position moves to
  the end (it stays where it is when already beyond). A closed stream raises.
\<close>

definition read :: "bytesio \<Rightarrow> exc + (bytes \<times> bytesio)" where
  "read f =
     (if closed f then Inl (Exc ValueError ''I/O operation on closed file.'')
      else Inr (drop (tell f) (getvalue f),
                f\<lparr>tell := max (tell f) (length (getvalue f))\<rparr>))"

definition seek :: "bytesio \<Rightarrow> nat \<Rightarrow> exc + bytesio" where
  "seek f n =
     (if closed f then Inl (Exc ValueError ''I/O operation on closed file.'')
      else Inr (f\<lparr>tell := n\<rparr>))"

section \<open>The sink, the audio object and the operating system\<close>

text \<open>
  The voice client (\<open>self.vc\<close>) is read only through its \<open>recording\<close> attribute.
\<close>

record voice_client =
  recording :: bool

text \<open>
  \<open>MKVSink\<close>: the attributes \<open>__init__\<close> assigns. The filters are kept as an
  opaque value; \<open>audio_data\<close> maps a user id to that user's raw stream.
\<close>

record 'f sink =
  filters :: 'f
  encoding :: string
  vc :: "voice_client option"
  audio_data :: "nat \<rightharpoonup> bytesio"

text \<open>
  \<open>MKVSink.__init__(self, *, filters=None)\<close>. The call \<open>Filters.__init__\<close> belongs
  to \<open>sinks/core.py\<close>; it assigns attributes \<open>format_audio\<close> never reads and is
  left out.
\<close>

definition MKVSink_init :: "'f \<Rightarrow> 'f option \<Rightarrow> 'f sink" where
  "MKVSink_init default_filters filters_arg =
     \<lparr>filters = (case filters_arg of None \<Rightarrow> default_filters | Some f \<Rightarrow> f),
      encoding = ''mkv'',
      vc = None,
      audio_data = Map.empty\<rparr>"

text \<open>
  The audio object handed to \<open>format_audio\<close>: its \<open>file\<close> attribute (\<open>file_obj\<close>
  here), and whatever else the class of \<open>sinks/core.py\<close> holds in the extension of the record.
\<close>

record audio =
  file_obj :: bytesio

text \<open>
  A child process as the operating system sees it: the command line it was started
  with, whether each of its two pipes is still open on our side, and whether it has
  been waited for.
\<close>

record proc_entry =
  argv :: "string list"
  stdin_open :: bool
  stdout_open :: bool
  reaped :: bool

record world =
  popen_calls :: "string list list"
  procs :: "proc_entry list"

text \<open>
  \<open>process.communicate(input)\<close> with stdin and stdout piped and stderr inherited:
  it either raises, or returns the bytes read from stdout after the process has
  exited with some return code.
\<close>

datatype comm_result = CommRaises exc | CommReturns bytes int

type_synonym process = "bytes \<Rightarrow> comm_result"

datatype popen_result = PopenRaises exc | PopenReturns process

text \<open>
  What lies outside the module: how \<open>subprocess.Popen\<close> answers a command line, and
  the method \<open>on_format\<close> of the audio object (defined in \<open>sinks/core.py\<close>), which
  may raise and may change the object.
\<close>

record 'a env =
  Popen :: "string list \<Rightarrow> popen_result"
  on_format :: "string \<Rightarrow> 'a audio_scheme \<Rightarrow> (exc + unit) \<times> 'a audio_scheme"

text \<open>The objects a call of \<open>format_audio\<close> can reach.\<close>

record ('f, 'a) state =
  self :: "'f sink"
  audio :: "'a audio_scheme"
  os :: world

text \<open>A process just started by \<open>Popen(args, stdout=PIPE, stdin=PIPE)\<close>.\<close>

definition started :: "string list \<Rightarrow> proc_entry" where
  "started args = \<lparr>argv = args, stdin_open = True, stdout_open = True, reaped = False\<rparr>"

text \<open>
  A returning \<open>communicate\<close> has closed stdin after writing, read stdout to its end,
  closed it and waited for the process.
\<close>

definition communicated :: "proc_entry \<Rightarrow> proc_entry" where
  "communicated p = p\<lparr>stdin_open := False, stdout_open := False, reaped := True\<rparr>"


section \<open>MKVSink.format\_audio\<close>

text \<open>The command line, the local \<open>args\<close> of the method.\<close>

definition args :: "string list" where
  "args = [''ffmpeg'', ''-f'', ''s16le'', ''-ar'', ''48000'',
           ''-loglevel'', ''error'', ''-ac'', ''2'', ''-i'', ''-'',
           ''-f'', ''matroska'', ''pipe:1'']"

text \<open>
  Reading \<open>recording\<close> from \<open>None\<close> raises \<open>AttributeError\<close> with the
  interpreter's text, which quotes the type and the attribute.
\<close>

definition quoted :: "string \<Rightarrow> string" where
  "quoted n = CHR 0x27 # n @ [CHR 0x27]"

definition no_attribute :: "string \<Rightarrow> string \<Rightarrow> exc" where
  "no_attribute ty attr =
     Exc AttributeError (quoted ty @ '' object has no attribute '' @ quoted attr)"

text \<open>
  The method returns nothing or raises; the objects it has changed by then stay
  changed, so the state is returned on both outcomes. \<open>popen_calls\<close> records every
  call of \<open>subprocess.Popen\<close>, also one that raises; \<open>procs\<close> holds the processes
  that were started.
\<close>

definition format_audio ::
  "'a env \<Rightarrow> ('f, 'a) state \<Rightarrow> (exc + unit) \<times> ('f, 'a) state" where
  "format_audio env s =
     (case vc (self s) of
        None \<Rightarrow> (Inl (no_attribute ''NoneType'' ''recording''), s)
      | Some v \<Rightarrow>
          if recording v then
            (Inl (Exc MKVSinkError
                    ''Audio may only be formatted after recording is finished.''), s)
          else
            let s0 = s\<lparr>os := (os s)\<lparr>popen_calls := popen_calls (os s) @ [args]\<rparr>\<rparr>
            in case Popen env args of
                 PopenRaises e \<Rightarrow>
                   if exc_cls e = FileNotFoundError then
                     (Inl (Exc MKVSinkError ''ffmpeg was not found.''), s0)
                   else if isinstance_SubprocessError e then
                     (Inl (Exc MKVSinkError
                             (''Popen failed: '' @ class_name (exc_cls e) @ '': ''
                                @ exc_str e)), s0)
                   else (Inl e, s0)
               | PopenReturns process \<Rightarrow>
                   let pid = length (procs (os s0));
                       s1 = s0\<lparr>os := (os s0)\<lparr>procs := procs (os s0) @ [started args]\<rparr>\<rparr>
                   in case read (file_obj (audio s1)) of
                        Inl e \<Rightarrow> (Inl e, s1)
                      | Inr (data, f') \<Rightarrow>
                          let s2 = s1\<lparr>audio := (audio s1)\<lparr>file_obj := f'\<rparr>\<rparr>
                          in case process data of
                               CommRaises e \<Rightarrow> (Inl e, s2)
                             | CommReturns out rc \<Rightarrow>
                                 let s3 = s2\<lparr>os := (os s2)\<lparr>procs :=
                                            (procs (os s2))
                                              [pid := communicated (procs (os s2) ! pid)]\<rparr>\<rparr>
                                 in case seek (BytesIO out) 0 of
                                      Inl e \<Rightarrow> (Inl e, s3)
                                    | Inr out' \<Rightarrow>
                                        let s4 = s3\<lparr>audio := (audio s3)\<lparr>file_obj := out'\<rparr>\<rparr>;
                                            (r, a') = on_format env (encoding (self s4)) (audio s4)
                                        in (r, s4\<lparr>audio := a'\<rparr>))"

section \<open>Team.owner\<close>

text \<open>
  A team member and a team, with the attributes the constructors assign that the
  \<open>owner\<close> property can reach; a member's other user attributes are in the
  extension of the record.
\<close>

record team_member =
  id_member :: int
  name_member :: string
  permissions :: "string list"

record team =
  id_team :: int
  name_team :: string
  icon_hash :: "string option"
  owner_id :: "int option"
  members :: "team_member list"

text \<open>
  Modelled from the spec: \<open>utils.get\<close> of \<open>discord/utils.py\<close>, a module that is not
  among the sources at hand and that the specification does not describe beyond what
  is said of \<open>Team.owner\<close>: called with one keyword \<open>attr=value\<close> it walks the
  iterable in order and returns the first element whose attribute equals the value,
  and \<open>None\<close> when there is none.
\<close>

fun utils_get :: "'e list \<Rightarrow> ('e \<Rightarrow> 'v) \<Rightarrow> 'v \<Rightarrow> 'e option" where
  "utils_get [] attr v = None"
| "utils_get (elem # rest) attr v =
     (if attr elem = v then Some elem else utils_get rest attr v)"

text \<open>
  \<open>Team.owner\<close>: \<open>utils.get(self.members, id=self.owner_id)\<close>. A member's id is an
  integer and \<open>owner_id\<close> an integer or \<open>None\<close>; the comparison \<open>member.id == None\<close>
  is false.
\<close>

definition owner :: "team \<Rightarrow> team_member option" where
  "owner t = utils_get (members t) (\<lambda>m. Some (id_member m)) (owner_id t)"

section \<open>Concrete sinks, encoders and teams\<close>

definition stopped_sink :: "unit sink" where
  "stopped_sink = (MKVSink_init () None)\<lparr>vc := Some \<lparr>recording = False\<rparr>\<rparr>"

definition recording_sink :: "unit sink" where
  "recording_sink = (MKVSink_init () None)\<lparr>vc := Some \<lparr>recording = True\<rparr>\<rparr>"

text \<open>One stereo frame of 16-bit silence.\<close>

definition silence :: bytes where
  "silence = [0, 0, 0, 0]"

definition idle_world :: world where
  "idle_world = \<lparr>popen_calls = [], procs = []\<rparr>"

text \<open>An \<open>on_format\<close> that accepts every object and leaves it as it is.\<close>

definition accepting_env :: "popen_result \<Rightarrow> unit env" where
  "accepting_env r = \<lparr>Popen = (\<lambda>_. r), on_format = (\<lambda>_ a. (Inr (), a))\<rparr>"

definition session :: "unit sink \<Rightarrow> bytesio \<Rightarrow> (unit, unit) state" where
  "session snk f = \<lparr>self = snk, audio = \<lparr>file_obj = f\<rparr>, os = idle_world\<rparr>"

text \<open>
  An encoder that answers every input with the same four bytes and exits with the
  given status, and one that writes nothing.
\<close>

definition encoder_exits :: "int \<Rightarrow> process" where
  "encoder_exits rc = (\<lambda>_. CommReturns [0x1A, 0x45, 0xDF, 0xA3] rc)"

definition encoder_writes_nothing :: "int \<Rightarrow> process" where
  "encoder_writes_nothing rc = (\<lambda>_. CommReturns [] rc)"


definition alice :: team_member where
  "alice = \<lparr>id_member = 11, name_member = ''alice'', permissions = [''*'']\<rparr>"

definition bob :: team_member where
  "bob = \<lparr>id_member = 22, name_member = ''bob'', permissions = []\<rparr>"

definition team_of :: "int option \<Rightarrow> team" where
  "team_of oid = \<lparr>id_team = 1, name_team = ''crew'', icon_hash = None,
                  owner_id = oid, members = [alice, bob]\<rparr>"

section \<open>The paths through format\_audio\<close>

text \<open>
  One equation for each way out of the method: the guard on an unattached sink, the
  guard on a running recording, a \<open>Popen\<close> that raises, a \<open>read\<close> that raises, a
  \<open>communicate\<close> that raises, and a \<open>communicate\<close> that returns.
\<close>

lemma fa_unattached:
  "vc (self s) = None \<Longrightarrow> format_audio env s = (Inl (no_attribute ''NoneType'' ''recording''), s)"
  by (simp add: format_audio_def)

lemma fa_recording:
  "vc (self s) = Some v \<Longrightarrow> recording v \<Longrightarrow>
   format_audio env s = (Inl (Exc MKVSinkError ''Audio may only be formatted after recording is finished.''), s)"
  by (simp add: format_audio_def)

lemma fa_popen_raises:
  "vc (self s) = Some v \<Longrightarrow> \<not> recording v \<Longrightarrow> Popen env args = PopenRaises e \<Longrightarrow>
   format_audio env s =
     (if exc_cls e = FileNotFoundError then Inl (Exc MKVSinkError ''ffmpeg was not found.'')
      else if isinstance_SubprocessError e then
        Inl (Exc MKVSinkError (''Popen failed: '' @ class_name (exc_cls e) @ '': '' @ exc_str e))
      else Inl e,
      s\<lparr>os := (os s)\<lparr>popen_calls := popen_calls (os s) @ [args]\<rparr>\<rparr>)"
  by (simp add: format_audio_def)

lemma fa_read_raises:
  "vc (self s) = Some v \<Longrightarrow> \<not> recording v \<Longrightarrow> Popen env args = PopenReturns p \<Longrightarrow>
   read (file_obj (audio s)) = Inl e \<Longrightarrow>
   format_audio env s =
     (Inl e, s\<lparr>os := \<lparr>popen_calls = popen_calls (os s) @ [args],
                       procs = procs (os s) @ [started args]\<rparr>\<rparr>)"
  by (simp add: format_audio_def Let_def)


lemma fa_comm_returns:
  "vc (self s) = Some v \<Longrightarrow> \<not> recording v \<Longrightarrow> Popen env args = PopenReturns p \<Longrightarrow>
   read (file_obj (audio s)) = Inr (data, f') \<Longrightarrow> p data = CommReturns out rc \<Longrightarrow>
   format_audio env s =
     (fst (on_format env (encoding (self s)) ((audio s)\<lparr>file_obj := BytesIO out\<rparr>)),
      s\<lparr>audio := snd (on_format env (encoding (self s)) ((audio s)\<lparr>file_obj := BytesIO out\<rparr>)),
        os := \<lparr>popen_calls = popen_calls (os s) @ [args],
                procs = procs (os s) @ [communicated (started args)]\<rparr>\<rparr>)"
  by (simp add: format_audio_def Let_def seek_def BytesIO_def split: prod.splits)

text \<open>
  What every path has in common: the sink is never assigned to, the guards leave the
  operating system alone, and past the guards \<open>Popen\<close> is called once.
\<close>

lemma fa_self: "self (snd (format_audio env s)) = self s"
  by (simp add: format_audio_def Let_def
      split: option.splits popen_result.splits comm_result.splits prod.splits sum.splits)

lemma fa_popen_calls_guarded:
  "vc (self s) = None \<or> (\<exists>v. vc (self s) = Some v \<and> recording v) \<Longrightarrow>
   os (snd (format_audio env s)) = os s"
  by (auto simp: format_audio_def)

lemma fa_popen_calls:
  "vc (self s) = Some v \<Longrightarrow> \<not> recording v \<Longrightarrow>
   popen_calls (os (snd (format_audio env s))) = popen_calls (os s) @ [args]"
  by (simp add: format_audio_def Let_def
      split: option.splits popen_result.splits comm_result.splits prod.splits sum.splits)

lemma fa_procs_raises:
  "vc (self s) = Some v \<Longrightarrow> \<not> recording v \<Longrightarrow> Popen env args = PopenRaises e \<Longrightarrow>
   procs (os (snd (format_audio env s))) = procs (os s)"
  by (simp add: fa_popen_raises)

lemma fa_procs_started:
  "vc (self s) = Some v \<Longrightarrow> \<not> recording v \<Longrightarrow> Popen env args = PopenReturns p \<Longrightarrow>
   length (procs (os (snd (format_audio env s)))) = Suc (length (procs (os s))) \<and>
   take (length (procs (os s))) (procs (os (snd (format_audio env s)))) = procs (os s) \<and>
   argv (procs (os (snd (format_audio env s))) ! length (procs (os s))) = args"
  by (simp add: format_audio_def Let_def started_def communicated_def
      split: option.splits popen_result.splits comm_result.splits prod.splits sum.splits)

lemma fa_success:
  "fst (format_audio env s) = Inr () \<Longrightarrow>
   \<exists>v p out rc. vc (self s) = Some v \<and> \<not> recording v \<and> Popen env args = PopenReturns p \<and>
     \<not> closed (file_obj (audio s)) \<and>
     p (drop (tell (file_obj (audio s))) (getvalue (file_obj (audio s)))) = CommReturns out rc \<and>
     fst (on_format env (encoding (self s)) ((audio s)\<lparr>file_obj := BytesIO out\<rparr>)) = Inr ()"
  by (auto simp: format_audio_def Let_def read_def seek_def BytesIO_def
      split: option.splits if_splits popen_result.splits comm_result.splits prod.splits sum.splits)

lemma read_open:
  "\<not> closed f \<Longrightarrow>
   read f = Inr (drop (tell f) (getvalue f), f\<lparr>tell := max (tell f) (length (getvalue f))\<rparr>)"
  by (simp add: read_def)


text \<open>The concrete sinks used below.\<close>

lemma stopped_session:
  "vc (self (session stopped_sink f)) = Some \<lparr>recording = False\<rparr>"
  by (simp add: session_def stopped_sink_def)

lemma not_recording: "\<not> recording \<lparr>recording = False\<rparr>"
  by simp

text \<open>The exit status of the encoder does not reach the outcome.\<close>

lemma fa_exit_status:
  "format_audio (env\<lparr>Popen := \<lambda>_. PopenReturns (\<lambda>_. CommReturns out rc)\<rparr>) s =
   format_audio (env\<lparr>Popen := \<lambda>_. PopenReturns (\<lambda>_. CommReturns out rc')\<rparr>) s"
proof (cases "vc (self s)")
  case None
  then show ?thesis by (simp add: fa_unattached)
next
  case (Some v)
  show ?thesis
  proof (cases "recording v")
    case True
    with Some show ?thesis by (simp add: fa_recording)
  next
    case False
    show ?thesis
    proof (cases "read (file_obj (audio s))")
      case (Inl e)
      from Some False Inl show ?thesis
        by (simp add: fa_read_raises [where p = "\<lambda>_. CommReturns out rc"]
            fa_read_raises [where p = "\<lambda>_. CommReturns out rc'"])
    next
      case (Inr b)
      then obtain data f' where "read (file_obj (audio s)) = Inr (data, f')"
        by (cases b) simp
      with Some False show ?thesis
        by (simp add: fa_comm_returns [where p = "\<lambda>_. CommReturns out rc" and rc = rc]
            fa_comm_returns [where p = "\<lambda>_. CommReturns out rc'" and rc = rc'])
    qed
  qed
qed

section \<open>Searching a list by attribute\<close>

lemma utils_get_Some:
  "utils_get xs attr v = Some e \<Longrightarrow> e \<in> set xs \<and> attr e = v"
  by (induction xs) (auto split: if_splits)

lemma utils_get_None:
  "utils_get xs attr v = None \<longleftrightarrow> (\<forall>e \<in> set xs. attr e \<noteq> v)"
  by (induction xs) auto

lemma utils_get_distinct:
  "distinct (map attr xs) \<Longrightarrow> e \<in> set xs \<Longrightarrow> utils_get xs attr (attr e) = Some e"
  by (induction xs) (auto simp: image_iff)

section \<open>The guards\<close>

text \<open>
  Claim C9. The constructor leaves \<open>vc\<close> at \<open>None\<close>, and on a sink whose \<open>vc\<close>
  is \<open>None\<close> \<open>format_audio\<close> raises \<open>AttributeError\<close> from the guard and returns
  the state it was given: no call of \<open>Popen\<close>, no process, the audio object as it
  was.
\<close>

theorem format_audio_unattached:
  "vc (MKVSink_init d f) = None \<and>
   (vc (self s) = None \<longrightarrow>
      format_audio env s = (Inl (no_attribute ''NoneType'' ''recording''), s))"
  by (simp add: fa_unattached MKVSink_init_def)

text \<open>A sink fresh from the constructor.\<close>

theorem format_audio_unattached_witness:
  "vc (self (session (MKVSink_init () None) (BytesIO silence))) = None \<and>
   format_audio (accepting_env (PopenReturns (encoder_exits 0)))
       (session (MKVSink_init () None) (BytesIO silence))
     = (Inl (Exc AttributeError
          (CHR 0x27 # ''NoneType'' @ CHR 0x27 # '' object has no attribute ''
             @ CHR 0x27 # ''recording'' @ [CHR 0x27])),
        \<lparr>self = MKVSink_init () None, audio = \<lparr>file_obj = BytesIO silence\<rparr>,
         os = \<lparr>popen_calls = [], procs = []\<rparr>\<rparr>)"
  using format_audio_unattached [of "()" None "session (MKVSink_init () None) (BytesIO silence)"
      "accepting_env (PopenReturns (encoder_exits 0))"]
  by (simp add: session_def MKVSink_init_def no_attribute_def quoted_def idle_world_def)

text \<open>
  Claim C2. While the voice client is recording, \<open>format_audio\<close> raises
  \<open>MKVSinkError\<close> with the text ``Audio may only be formatted after recording is
  finished.'' and returns the state it was given: no call of \<open>Popen\<close>, no process,
  the audio object as it was. The error differs from the ones the method builds when
  \<open>Popen\<close> fails, so a caller can tell it apart.
\<close>

theorem format_audio_premature:
  "vc (self s) = Some v \<Longrightarrow> recording v \<Longrightarrow>
   format_audio env s =
     (Inl (Exc MKVSinkError ''Audio may only be formatted after recording is finished.''), s)
   \<and> (\<forall>env' s' v' e'. vc (self s') = Some v' \<and> \<not> recording v' \<and>
         Popen env' args = PopenRaises e' \<and>
         (exc_cls e' = FileNotFoundError \<or> isinstance_SubprocessError e') \<longrightarrow>
         fst (format_audio env' (s' :: ('f, 'a) state)) \<noteq> fst (format_audio env s))"
proof (intro conjI allI impI)
  assume a: "vc (self s) = Some v" "recording v"
  then show r: "format_audio env s =
     (Inl (Exc MKVSinkError ''Audio may only be formatted after recording is finished.''), s)"
    by (rule fa_recording)
  fix env' :: "'a env" and s' :: "('f, 'a) state" and v' e'
  assume b: "vc (self s') = Some v' \<and> \<not> recording v' \<and> Popen env' args = PopenRaises e' \<and>
         (exc_cls e' = FileNotFoundError \<or> isinstance_SubprocessError e')"
  then have "format_audio env' s' =
     (if exc_cls e' = FileNotFoundError then Inl (Exc MKVSinkError ''ffmpeg was not found.'')
      else if isinstance_SubprocessError e' then
        Inl (Exc MKVSinkError (''Popen failed: '' @ class_name (exc_cls e') @ '': '' @ exc_str e'))
      else Inl e',
      s'\<lparr>os := (os s')\<lparr>popen_calls := popen_calls (os s') @ [args]\<rparr>\<rparr>)"
    by (intro fa_popen_raises) auto
  with b r show "fst (format_audio env' s') \<noteq> fst (format_audio env s)"
    by auto
qed

text \<open>A recording sink, and a stopped one whose encoder is missing, side by side.\<close>

theorem format_audio_premature_witness:
  "format_audio (accepting_env (PopenReturns (encoder_exits 0)))
       (session recording_sink (BytesIO silence))
     = (Inl (Exc MKVSinkError ''Audio may only be formatted after recording is finished.''),
        \<lparr>self = recording_sink, audio = \<lparr>file_obj = BytesIO silence\<rparr>,
         os = \<lparr>popen_calls = [], procs = []\<rparr>\<rparr>) \<and>
   fst (format_audio (accepting_env (PopenRaises (Exc FileNotFoundError ''No such file'')))
          (session stopped_sink (BytesIO silence)))
     \<noteq> fst (format_audio (accepting_env (PopenReturns (encoder_exits 0)))
          (session recording_sink (BytesIO silence)))"
proof -
  have g: "vc (self (session recording_sink (BytesIO silence))) = Some \<lparr>recording = True\<rparr>"
      "recording \<lparr>recording = True\<rparr>"
    by (simp_all add: session_def recording_sink_def)
  have h: "vc (self (session stopped_sink (BytesIO silence))) = Some \<lparr>recording = False\<rparr> \<and>
      \<not> recording \<lparr>recording = False\<rparr> \<and>
      Popen (accepting_env (PopenRaises (Exc FileNotFoundError ''No such file''))) args
        = PopenRaises (Exc FileNotFoundError ''No such file'') \<and>
      (exc_cls (Exc FileNotFoundError ''No such file'') = FileNotFoundError \<or>
       isinstance_SubprocessError (Exc FileNotFoundError ''No such file''))"
    by (simp add: session_def stopped_sink_def accepting_env_def)
  note both = format_audio_premature [OF g, of "accepting_env (PopenReturns (encoder_exits 0))"]
  note differs = both [THEN conjunct2, rule_format,
      of "session stopped_sink (BytesIO silence)" "\<lparr>recording = False\<rparr>"
         "accepting_env (PopenRaises (Exc FileNotFoundError ''No such file''))"
         "Exc FileNotFoundError ''No such file''", OF h]
  from both [THEN conjunct1] differs show ?thesis
    by (simp add: session_def idle_world_def)
qed

section \<open>Starting the encoder\<close>

text \<open>
  Claim C7. A call of \<open>format_audio\<close> calls \<open>Popen\<close> at most once and only with
  the command line \<open>ffmpeg -f s16le -ar 48000 -loglevel error -ac 2 -i - -f matroska
  pipe:1\<close>; past the two guards it calls it exactly once, and a process that starts
  carries this command line.
\<close>

theorem format_audio_command_line:
  "(popen_calls (os (snd (format_audio env s))) = popen_calls (os s) \<or>
    popen_calls (os (snd (format_audio env s))) = popen_calls (os s) @
      [[''ffmpeg'', ''-f'', ''s16le'', ''-ar'', ''48000'', ''-loglevel'', ''error'',
        ''-ac'', ''2'', ''-i'', ''-'', ''-f'', ''matroska'', ''pipe:1'']]) \<and>
   (\<forall>v. vc (self s) = Some v \<and> \<not> recording v \<longrightarrow>
      popen_calls (os (snd (format_audio env s))) = popen_calls (os s) @
        [[''ffmpeg'', ''-f'', ''s16le'', ''-ar'', ''48000'', ''-loglevel'', ''error'',
          ''-ac'', ''2'', ''-i'', ''-'', ''-f'', ''matroska'', ''pipe:1'']] \<and>
      (\<forall>p. Popen env [''ffmpeg'', ''-f'', ''s16le'', ''-ar'', ''48000'', ''-loglevel'',
                      ''error'', ''-ac'', ''2'', ''-i'', ''-'', ''-f'', ''matroska'',
                      ''pipe:1''] = PopenReturns p \<longrightarrow>
         argv (procs (os (snd (format_audio env s))) ! length (procs (os s))) =
           [''ffmpeg'', ''-f'', ''s16le'', ''-ar'', ''48000'', ''-loglevel'', ''error'',
            ''-ac'', ''2'', ''-i'', ''-'', ''-f'', ''matroska'', ''pipe:1'']))"
proof -
  have a: "args = [''ffmpeg'', ''-f'', ''s16le'', ''-ar'', ''48000'', ''-loglevel'', ''error'',
        ''-ac'', ''2'', ''-i'', ''-'', ''-f'', ''matroska'', ''pipe:1'']"
    by (simp add: args_def)
  have guarded: "popen_calls (os (snd (format_audio env s))) = popen_calls (os s)
      \<or> popen_calls (os (snd (format_audio env s))) = popen_calls (os s) @ [args]"
  proof (cases "vc (self s)")
    case None
    then show ?thesis by (simp add: fa_popen_calls_guarded)
  next
    case (Some v)
    show ?thesis
    proof (cases "recording v")
      case True
      with Some have "os (snd (format_audio env s)) = os s"
        by (intro fa_popen_calls_guarded) simp
      then show ?thesis by simp
    next
      case False
      with Some show ?thesis by (simp add: fa_popen_calls)
    qed
  qed
  have launched: "popen_calls (os (snd (format_audio env s))) = popen_calls (os s) @ [args]"
    if "vc (self s) = Some v" "\<not> recording v" for v
    using that by (rule fa_popen_calls)
  have entry: "argv (procs (os (snd (format_audio env s))) ! length (procs (os s))) = args"
    if "vc (self s) = Some v" "\<not> recording v" "Popen env args = PopenReturns p" for v p
    using fa_procs_started [OF that] by simp
  from guarded launched entry show ?thesis
    unfolding a by blast
qed

text \<open>The command line seen by the operating system for one conversion.\<close>

theorem format_audio_command_line_witness:
  "popen_calls (os (snd (format_audio (accepting_env (PopenReturns (encoder_exits 0)))
       (session stopped_sink (BytesIO silence))))) =
     [[''ffmpeg'', ''-f'', ''s16le'', ''-ar'', ''48000'', ''-loglevel'', ''error'',
       ''-ac'', ''2'', ''-i'', ''-'', ''-f'', ''matroska'', ''pipe:1'']] \<and>
   argv (procs (os (snd (format_audio (accepting_env (PopenReturns (encoder_exits 0)))
       (session stopped_sink (BytesIO silence))))) ! 0) =
     [''ffmpeg'', ''-f'', ''s16le'', ''-ar'', ''48000'', ''-loglevel'', ''error'',
      ''-ac'', ''2'', ''-i'', ''-'', ''-f'', ''matroska'', ''pipe:1'']"
proof -
  have v: "vc (self (session stopped_sink (BytesIO silence))) = Some \<lparr>recording = False\<rparr>
      \<and> \<not> recording \<lparr>recording = False\<rparr>"
    by (simp add: session_def stopped_sink_def)
  have p: "Popen (accepting_env (PopenReturns (encoder_exits 0)))
      [''ffmpeg'', ''-f'', ''s16le'', ''-ar'', ''48000'', ''-loglevel'', ''error'',
       ''-ac'', ''2'', ''-i'', ''-'', ''-f'', ''matroska'', ''pipe:1'']
       = PopenReturns (encoder_exits 0)"
    by (simp add: accepting_env_def)
  have w: "os (session stopped_sink (BytesIO silence)) = \<lparr>popen_calls = [], procs = []\<rparr>"
    by (simp add: session_def idle_world_def)
  from format_audio_command_line [of "accepting_env (PopenReturns (encoder_exits 0))"
      "session stopped_sink (BytesIO silence)"] v p
  show ?thesis by (simp add: w)
qed



text \<open>
  Claim C5, as stated, fails for its third mode: an encoder that exits with status 1
  and one that exits with status 0 after the same output give the same outcome, and
  that outcome is a normal return.
\<close>

theorem exit_status_not_distinguished:
  "format_audio (accepting_env (PopenReturns (encoder_exits 1)))
       (session stopped_sink (BytesIO silence))
     = format_audio (accepting_env (PopenReturns (encoder_exits 0)))
       (session stopped_sink (BytesIO silence)) \<and>
   fst (format_audio (accepting_env (PopenReturns (encoder_exits 1)))
       (session stopped_sink (BytesIO silence))) = Inr ()"
  by (simp add: format_audio_def accepting_env_def encoder_exits_def session_def
      stopped_sink_def MKVSink_init_def idle_world_def read_def seek_def BytesIO_def
      started_def communicated_def Let_def)

text \<open>
  Claim C5, amended. Of the failures of the external process, two are raised as
  \<open>MKVSinkError\<close> and differ in their text: \<open>FileNotFoundError\<close> at the spawn
  gives ``ffmpeg was not found.'', a \<open>SubprocessError\<close> at the spawn gives
  ``Popen failed: '' followed by the class name and the text of the cause. Any other
  exception of \<open>Popen\<close> leaves the method as it is. The exit status of a process
  that ran has no influence on the outcome.
\<close>

theorem spawn_failures_distinguished:
  "vc (self s) = Some v \<Longrightarrow> \<not> recording v \<Longrightarrow>
   Popen env1 args = PopenRaises e1 \<Longrightarrow> exc_cls e1 = FileNotFoundError \<Longrightarrow>
   Popen env2 args = PopenRaises e2 \<Longrightarrow> isinstance_SubprocessError e2 \<Longrightarrow>
   Popen env3 args = PopenRaises e3 \<Longrightarrow> exc_cls e3 \<noteq> FileNotFoundError \<Longrightarrow>
   \<not> isinstance_SubprocessError e3 \<Longrightarrow>
   fst (format_audio env1 s) = Inl (Exc MKVSinkError ''ffmpeg was not found.'') \<and>
   fst (format_audio env2 s) =
     Inl (Exc MKVSinkError (''Popen failed: '' @ class_name (exc_cls e2) @ '': '' @ exc_str e2)) \<and>
   fst (format_audio env1 s) \<noteq> fst (format_audio env2 s) \<and>
   fst (format_audio env3 s) = Inl e3 \<and>
   format_audio (env\<lparr>Popen := \<lambda>_. PopenReturns (\<lambda>_. CommReturns out rc)\<rparr>) s =
     format_audio (env\<lparr>Popen := \<lambda>_. PopenReturns (\<lambda>_. CommReturns out 0)\<rparr>) s"
proof -
  assume v: "vc (self s) = Some v" "\<not> recording v"
    and 1: "Popen env1 args = PopenRaises e1" "exc_cls e1 = FileNotFoundError"
    and 2: "Popen env2 args = PopenRaises e2" "isinstance_SubprocessError e2"
    and 3: "Popen env3 args = PopenRaises e3" "exc_cls e3 \<noteq> FileNotFoundError"
           "\<not> isinstance_SubprocessError e3"
  from 2(2) have n: "exc_cls e2 \<noteq> FileNotFoundError"
    by (cases e2) auto
  have a: "fst (format_audio env1 s) = Inl (Exc MKVSinkError ''ffmpeg was not found.'')"
    using fa_popen_raises [OF v 1(1)] 1(2) by simp
  have b: "fst (format_audio env2 s) =
     Inl (Exc MKVSinkError (''Popen failed: '' @ class_name (exc_cls e2) @ '': '' @ exc_str e2))"
    using fa_popen_raises [OF v 2(1)] 2(2) n by simp
  have c: "fst (format_audio env3 s) = Inl e3"
    using fa_popen_raises [OF v 3(1)] 3(2,3) by simp
  have d: "format_audio (env\<lparr>Popen := \<lambda>_. PopenReturns (\<lambda>_. CommReturns out rc)\<rparr>) s =
     format_audio (env\<lparr>Popen := \<lambda>_. PopenReturns (\<lambda>_. CommReturns out 0)\<rparr>) s"
    by (rule fa_exit_status)
  from a b have "fst (format_audio env1 s) \<noteq> fst (format_audio env2 s)"
    by simp
  with a b c d show ?thesis
    by blast
qed

text \<open>A missing encoder, a failing \<open>preexec_fn\<close> and a permission error.\<close>

theorem spawn_failures_distinguished_witness:
  "fst (format_audio (accepting_env (PopenRaises (Exc FileNotFoundError ''No such file'')))
          (session stopped_sink (BytesIO silence)))
     = Inl (Exc MKVSinkError ''ffmpeg was not found.'') \<and>
   fst (format_audio (accepting_env (PopenRaises (Exc SubprocessError ''Exception occurred in preexec_fn.'')))
          (session stopped_sink (BytesIO silence)))
     = Inl (Exc MKVSinkError
         ''Popen failed: SubprocessError: Exception occurred in preexec_fn.'') \<and>
   fst (format_audio (accepting_env (PopenRaises (Exc PermissionError ''Permission denied'')))
          (session stopped_sink (BytesIO silence)))
     = Inl (Exc PermissionError ''Permission denied'')"
proof -
  note st = stopped_session [of "BytesIO silence"] not_recording
  have p: "Popen (accepting_env (PopenRaises e)) args = PopenRaises e" for e
    by (simp add: accepting_env_def)
  have e1: "exc_cls (Exc FileNotFoundError ''No such file'') = FileNotFoundError"
    by simp
  have e2: "isinstance_SubprocessError (Exc SubprocessError ''Exception occurred in preexec_fn.'')"
    by simp
  have e3: "exc_cls (Exc PermissionError ''Permission denied'') \<noteq> FileNotFoundError"
    "\<not> isinstance_SubprocessError (Exc PermissionError ''Permission denied'')"
    by simp_all
  from spawn_failures_distinguished [OF st p e1 p e2 p e3]
  show ?thesis by simp
qed

section \<open>The converted audio\<close>

text \<open>
  Claim C6. The constructor sets the encoding to ``mkv''. Whenever \<open>format_audio\<close>
  returns normally, a process was started and \<open>communicate\<close>, given everything
  \<open>read\<close> returned, came back with some output; \<open>on_format\<close> was called with the
  sink's encoding on the audio object whose file is an open stream at offset 0 holding
  that whole output, it raised nothing, and the audio object is the one it left. The
  sink itself is unchanged.
\<close>

theorem format_audio_success:
  "encoding (MKVSink_init d f) = ''mkv'' \<and>
   (fst (format_audio env s) = Inr () \<longrightarrow>
     (\<exists>p out rc. Popen env args = PopenReturns p \<and>
        p (drop (tell (file_obj (audio s))) (getvalue (file_obj (audio s)))) = CommReturns out rc \<and>
        on_format env (encoding (self s))
            ((audio s)\<lparr>file_obj := \<lparr>getvalue = out, tell = 0, closed = False\<rparr>\<rparr>)
          = (Inr (), audio (snd (format_audio env s))) \<and>
        self (snd (format_audio env s)) = self s))"
proof (intro conjI impI)
  show "encoding (MKVSink_init d f) = ''mkv''"
    by (simp add: MKVSink_init_def)
  assume ok: "fst (format_audio env s) = Inr ()"
  from fa_success [OF ok] obtain v p out rc where
    v: "vc (self s) = Some v" "\<not> recording v" and p: "Popen env args = PopenReturns p" and
    c: "\<not> closed (file_obj (audio s))" and
    r: "p (drop (tell (file_obj (audio s))) (getvalue (file_obj (audio s)))) = CommReturns out rc" and
    h: "fst (on_format env (encoding (self s)) ((audio s)\<lparr>file_obj := BytesIO out\<rparr>)) = Inr ()"
    by blast
  from fa_comm_returns [OF v p read_open [OF c] r] h
  have "on_format env (encoding (self s)) ((audio s)\<lparr>file_obj := BytesIO out\<rparr>)
          = (Inr (), audio (snd (format_audio env s)))"
    by (simp add: prod_eq_iff)
  with p r show "\<exists>p out rc. Popen env args = PopenReturns p \<and>
        p (drop (tell (file_obj (audio s))) (getvalue (file_obj (audio s)))) = CommReturns out rc \<and>
        on_format env (encoding (self s))
            ((audio s)\<lparr>file_obj := \<lparr>getvalue = out, tell = 0, closed = False\<rparr>\<rparr>)
          = (Inr (), audio (snd (format_audio env s))) \<and>
        self (snd (format_audio env s)) = self s"
    by (auto simp: BytesIO_def fa_self)
qed

text \<open>A stopped sink as the constructor made it, and an encoder that succeeds.\<close>

theorem format_audio_success_witness:
  "fst (format_audio (accepting_env (PopenReturns (encoder_exits 0)))
          (session stopped_sink (BytesIO silence))) = Inr () \<and>
   audio (snd (format_audio (accepting_env (PopenReturns (encoder_exits 0)))
          (session stopped_sink (BytesIO silence))))
     = \<lparr>file_obj = \<lparr>getvalue = [0x1A, 0x45, 0xDF, 0xA3], tell = 0, closed = False\<rparr>\<rparr> \<and>
   encoding (self (snd (format_audio (accepting_env (PopenReturns (encoder_exits 0)))
          (session stopped_sink (BytesIO silence))))) = ''mkv''"
proof -
  let ?env = "accepting_env (PopenReturns (encoder_exits 0))"
  let ?s = "session stopped_sink (BytesIO silence)"
  have ok: "fst (format_audio ?env ?s) = Inr ()"
    by (simp add: format_audio_def accepting_env_def encoder_exits_def session_def
      stopped_sink_def MKVSink_init_def idle_world_def read_def seek_def BytesIO_def Let_def)
  from format_audio_success [of "()" None ?env ?s, THEN conjunct2, rule_format, OF ok]
  obtain p out rc where p: "Popen ?env args = PopenReturns p"
    and r: "p (drop (tell (file_obj (audio ?s))) (getvalue (file_obj (audio ?s)))) = CommReturns out rc"
    and h: "on_format ?env (encoding (self ?s))
            ((audio ?s)\<lparr>file_obj := \<lparr>getvalue = out, tell = 0, closed = False\<rparr>\<rparr>)
          = (Inr (), audio (snd (format_audio ?env ?s)))"
    and e: "self (snd (format_audio ?env ?s)) = self ?s"
    by blast
  from p have "p = encoder_exits 0" by (simp add: accepting_env_def)
  with r have "out = [0x1A, 0x45, 0xDF, 0xA3]" by (simp add: encoder_exits_def)
  with h have "audio (snd (format_audio ?env ?s))
     = \<lparr>file_obj = \<lparr>getvalue = [0x1A, 0x45, 0xDF, 0xA3], tell = 0, closed = False\<rparr>\<rparr>"
    by (simp add: accepting_env_def session_def)
  moreover from e have "encoding (self (snd (format_audio ?env ?s))) = ''mkv''"
    by (simp add: session_def stopped_sink_def MKVSink_init_def)
  ultimately show ?thesis using ok by simp
qed

text \<open>
  Claim C3, as stated, fails: an encoder that writes nothing and exits with status 1
  makes \<open>format_audio\<close> return normally, with an empty stream in the audio object
  and \<open>on_format\<close> called on it.
\<close>

theorem failed_exit_not_reported:
  "format_audio (accepting_env (PopenReturns (encoder_writes_nothing 1)))
       (session stopped_sink (BytesIO silence))
     = (Inr (),
        \<lparr>self = stopped_sink,
         audio = \<lparr>file_obj = \<lparr>getvalue = [], tell = 0, closed = False\<rparr>\<rparr>,
         os = \<lparr>popen_calls = [args],
               procs = [\<lparr>argv = args, stdin_open = False, stdout_open = False,
                         reaped = True\<rparr>]\<rparr>\<rparr>)"
  by (simp add: format_audio_def accepting_env_def encoder_writes_nothing_def session_def
      stopped_sink_def MKVSink_init_def idle_world_def read_def seek_def BytesIO_def
      started_def communicated_def Let_def)

text \<open>
  Claim C3, amended. When \<open>communicate\<close> returns, whatever the exit status and
  whatever was written, \<open>format_audio\<close> raises nothing of its own: the audio's file
  becomes a fresh stream at offset 0 holding exactly the bytes read from stdout, and
  \<open>on_format\<close> is called with the sink's encoding; the outcome is what
  \<open>on_format\<close> gives. The return code does not occur on the right-hand side.
\<close>

theorem format_audio_after_exit:
  "vc (self s) = Some v \<Longrightarrow> \<not> recording v \<Longrightarrow> Popen env args = PopenReturns p \<Longrightarrow>
   \<not> closed (file_obj (audio s)) \<Longrightarrow>
   p (drop (tell (file_obj (audio s))) (getvalue (file_obj (audio s)))) = CommReturns out rc \<Longrightarrow>
   format_audio env s =
     (fst (on_format env (encoding (self s))
             ((audio s)\<lparr>file_obj := \<lparr>getvalue = out, tell = 0, closed = False\<rparr>\<rparr>)),
      s\<lparr>audio := snd (on_format env (encoding (self s))
             ((audio s)\<lparr>file_obj := \<lparr>getvalue = out, tell = 0, closed = False\<rparr>\<rparr>)),
        os := \<lparr>popen_calls = popen_calls (os s) @ [args],
                procs = procs (os s) @ [\<lparr>argv = args, stdin_open = False,
                                          stdout_open = False, reaped = True\<rparr>]\<rparr>\<rparr>)"
  using fa_comm_returns [of s v env p _ _ out rc] read_open [of "file_obj (audio s)"]
  by (simp add: BytesIO_def communicated_def started_def)

text \<open>An encoder that exits with status 3 after writing four bytes.\<close>

theorem format_audio_after_exit_witness:
  "format_audio (accepting_env (PopenReturns (encoder_exits 3)))
       (session stopped_sink (BytesIO silence))
     = (Inr (),
        \<lparr>self = stopped_sink,
         audio = \<lparr>file_obj = \<lparr>getvalue = [0x1A, 0x45, 0xDF, 0xA3], tell = 0, closed = False\<rparr>\<rparr>,
         os = \<lparr>popen_calls = [args],
               procs = [\<lparr>argv = args, stdin_open = False, stdout_open = False,
                         reaped = True\<rparr>]\<rparr>\<rparr>)"
proof -
  have p: "Popen (accepting_env (PopenReturns (encoder_exits 3))) args
      = PopenReturns (encoder_exits 3)"
    by (simp add: accepting_env_def)
  have c: "\<not> closed (file_obj (audio (session stopped_sink (BytesIO silence))))"
    by (simp add: session_def BytesIO_def)
  have r: "encoder_exits 3 (drop (tell (file_obj (audio (session stopped_sink (BytesIO silence)))))
      (getvalue (file_obj (audio (session stopped_sink (BytesIO silence))))))
      = CommReturns [0x1A, 0x45, 0xDF, 0xA3] 3"
    by (simp add: encoder_exits_def)
  from format_audio_after_exit [OF stopped_session not_recording p c r] show ?thesis
    by (simp add: session_def accepting_env_def idle_world_def)
qed

section \<open>The process after the call\<close>




section \<open>The owner of a team\<close>

text \<open>
  Claim C10. \<open>Team.owner\<close> is a value computed from the team alone. When it is a
  member, that member is in \<open>members\<close> and its id is \<open>owner_id\<close>; it is \<open>None\<close>
  exactly when no member has that id, in particular when \<open>owner_id\<close> is \<open>None\<close>;
  and when the ids of the members are distinct, the member whose id is \<open>owner_id\<close> is
  the one returned.
\<close>

theorem owner_first_match:
  "(\<forall>m. owner t = Some m \<longrightarrow> m \<in> set (members t) \<and> owner_id t = Some (id_member m)) \<and>
   (owner t = None \<longleftrightarrow> (\<forall>m \<in> set (members t). owner_id t \<noteq> Some (id_member m))) \<and>
   (owner_id t = None \<longrightarrow> owner t = None) \<and>
   (distinct (map id_member (members t)) \<longrightarrow>
      (\<forall>m \<in> set (members t). owner_id t = Some (id_member m) \<longrightarrow> owner t = Some m))"
proof (intro conjI allI impI ballI)
  fix m assume "owner t = Some m"
  then show "m \<in> set (members t)" "owner_id t = Some (id_member m)"
    using utils_get_Some [of "members t" "\<lambda>m. Some (id_member m)" "owner_id t" m]
    by (auto simp: owner_def)
next
  show "owner t = None \<longleftrightarrow> (\<forall>m \<in> set (members t). owner_id t \<noteq> Some (id_member m))"
    by (auto simp: owner_def utils_get_None)
next
  assume "owner_id t = None"
  then show "owner t = None"
    by (simp add: owner_def utils_get_None)
next
  fix m
  assume d: "distinct (map id_member (members t))" and m: "m \<in> set (members t)"
    and o: "owner_id t = Some (id_member m)"
  from d have "distinct (map (\<lambda>m. Some (id_member m)) (members t))"
    by (simp add: distinct_map inj_on_def)
  from utils_get_distinct [OF this m] o show "owner t = Some m"
    by (simp add: owner_def)
qed

text \<open>A team of two, owned by the second member, by a stranger, and by nobody.\<close>

theorem owner_first_match_witness:
  "owner (team_of (Some 22)) = Some bob \<and> bob \<in> set (members (team_of (Some 22))) \<and>
   owner (team_of (Some 33)) = None \<and> owner (team_of None) = None"
proof -
  have d: "distinct (map id_member (members (team_of (Some 22))))"
    by (simp add: team_of_def alice_def bob_def)
  have b: "bob \<in> set (members (team_of (Some 22)))"
    by (simp add: team_of_def)
  have o: "owner_id (team_of (Some 22)) = Some (id_member bob)"
    by (simp add: team_of_def bob_def)
  have n: "\<forall>m \<in> set (members (team_of (Some 33))). owner_id (team_of (Some 33)) \<noteq> Some (id_member m)"
    by (simp add: team_of_def alice_def bob_def)
  have z: "owner_id (team_of None) = None"
    by (simp add: team_of_def)
  note t1 = owner_first_match [of "team_of (Some 22)"]
  note t2 = owner_first_match [of "team_of (Some 33)"]
  note t3 = owner_first_match [of "team_of None"]
  from t1 d b o have "owner (team_of (Some 22)) = Some bob" by blast
  moreover from t2 n have "owner (team_of (Some 33)) = None" by blast
  moreover from t3 z have "owner (team_of None) = None" by blast
  ultimately show ?thesis using b by simp
qed

end
